theory Spec2Isabelle
  imports Main "HOL-Library.Word"
begin

unbundle bit_operations_syntax

section \<open>Wire codec (protocol file of package socks4)\<close>

type_synonym byte = "8 word"

subsection \<open>Protocol constants\<close>

definition Version4 :: byte where "Version4 = 0x04"

definition CmdConnect :: byte where "CmdConnect = 0x01"
definition CmdBind :: byte where "CmdBind = 0x02"

definition Granted :: byte where "Granted = 0x5a"
definition RejectOrFailure :: byte where "RejectOrFailure = 0x5b"
definition RejectNoIdentd :: byte where "RejectNoIdentd = 0x5c"
definition RejectWrongUserId :: byte where "RejectWrongUserId = 0x5d"

definition NullByte :: byte where "NullByte = 0x00"

subsection \<open>Library functions the codec calls\<close>

text \<open>
  Go's \<^verbatim>\<open>string(bs)\<close> on a byte slice: the same bytes, as a string. A \<^typ>\<open>char\<close> is a
  byte, so the conversion is bytewise.
\<close>

definition string_of_bytes :: "byte list \<Rightarrow> string" where
  "string_of_bytes bs = map (\<lambda>b. char_of (unat b)) bs"

text \<open>\<^verbatim>\<open>strconv.Itoa\<close>: the decimal digits of an integer, most significant first.\<close>

fun digits :: "nat \<Rightarrow> string" where
  "digits n = (if n < 10 then [char_of (48 + n)]
               else digits (n div 10) @ [char_of (48 + n mod 10)])"

declare digits.simps [simp del]

definition Itoa :: "int \<Rightarrow> string" where
  "Itoa i = (if i < 0 then CHR ''-'' # digits (nat (- i)) else digits (nat i))"

text \<open>
  \<^verbatim>\<open>binary.BigEndian.Uint16(b)\<close> reads \<^verbatim>\<open>uint16(b[1]) | uint16(b[0])<<8\<close>;
  \<^verbatim>\<open>binary.BigEndian.AppendUint16(b, v)\<close> appends \<^verbatim>\<open>byte(v>>8), byte(v)\<close>.
\<close>

definition Uint16 :: "byte \<Rightarrow> byte \<Rightarrow> 16 word" where
  "Uint16 b0 b1 = (ucast b1 OR push_bit 8 (ucast b0))"

definition AppendUint16 :: "byte list \<Rightarrow> 16 word \<Rightarrow> byte list" where
  "AppendUint16 b v = b @ [ucast (drop_bit 8 v), ucast v]"

text \<open>
  \<^verbatim>\<open>bytes.Split(s, sep)\<close> for a separator of one byte: the pieces of \<open>s\<close> between the
  occurrences of the separator, one more piece than there are occurrences.
\<close>

fun Split :: "byte list \<Rightarrow> byte \<Rightarrow> byte list list" where
  "Split [] sep = [[]]"
| "Split (x # xs) sep =
     (if x = sep then [] # Split xs sep
      else (case Split xs sep of
              [] \<Rightarrow> [[x]]
            | f # fs \<Rightarrow> (x # f) # fs))"

text \<open>
  \<^verbatim>\<open>net.IPv4(a, b, c, d).String()\<close>: the dotted-decimal text of the address.
\<close>

definition IPv4_String :: "byte \<Rightarrow> byte \<Rightarrow> byte \<Rightarrow> byte \<Rightarrow> string" where
  "IPv4_String a b c d =
     Itoa (uint a) @ ''.'' @ Itoa (uint b) @ ''.'' @ Itoa (uint c) @ ''.'' @ Itoa (uint d)"

text \<open>
  \<^verbatim>\<open>net.IP.To4\<close>: a 4-byte address is returned as it is, a 16-byte IPv4-mapped
  address (ten zero bytes, then \<open>0xff 0xff\<close>) gives its last four bytes, and every other
  slice, the nil one included, gives nil (the empty slice here).
\<close>

definition To4 :: "byte list \<Rightarrow> byte list" where
  "To4 ip =
     (if length ip = 4 then ip
      else if length ip = 16 \<and> list_all (\<lambda>x. x = 0) (take 10 ip)
              \<and> ip ! 10 = 0xff \<and> ip ! 11 = 0xff
      then drop 12 ip
      else [])"

subsection \<open>Requests\<close>

record Request =
  Version :: byte
  Cmd :: byte
  Port :: int
  Address :: string
  IsV4A :: bool
  UserId :: string

text \<open>
  The four errors of \<^verbatim>\<open>ParseRequest\<close>, in the order of its checks. The source creates
  them with \<^verbatim>\<open>errors.New\<close>; \<open>errorText\<close> gives the message of each.
\<close>

datatype DecodeError =
    MalformedRequest
  | UnsupportedVersion
  | UnsupportedCommand
  | MalformedExtendedRequest

fun errorText :: "DecodeError \<Rightarrow> string" where
  "errorText MalformedRequest = ''invalid SOCKS 4 request''"
| "errorText UnsupportedVersion = ''invalid SOCKS request VN''"
| "errorText UnsupportedCommand = ''invalid SOCKS request CD''"
| "errorText MalformedExtendedRequest = ''invalid SOCKS 4A request''"

text \<open>
  \<^verbatim>\<open>ParseRequest\<close>. The indices 0 to 8 are read only after the length check, and the
  slice \<^verbatim>\<open>b[8 : n-1]\<close> has \<open>8 \<le> n - 1 \<le> n\<close> there, so no access is out of range.
\<close>

definition ParseRequest :: "byte list \<Rightarrow> DecodeError + Request" where
  "ParseRequest b =
     (let n = length b in
      if n < 9 then Inl MalformedRequest
      else if b ! 0 \<noteq> Version4 then Inl UnsupportedVersion
      else if b ! 1 \<noteq> CmdConnect \<and> b ! 1 \<noteq> CmdBind then Inl UnsupportedCommand
      else
        let port = uint (Uint16 (b ! 2) (b ! 3)) in
        if b ! 4 = 0 \<and> b ! 5 = 0 \<and> b ! 6 = 0 \<and> b ! 7 \<noteq> 0 then
          (let bs = Split (drop 8 b) NullByte in
           if length bs \<noteq> 3 then Inl MalformedExtendedRequest
           else Inr \<lparr>Version = Version4, Cmd = b ! 1, Port = port,
                     Address = string_of_bytes (bs ! 1) @ '':'' @ Itoa port,
                     IsV4A = True,
                     UserId = string_of_bytes (bs ! 0)\<rparr>)
        else
          Inr \<lparr>Version = Version4, Cmd = b ! 1, Port = port,
               Address = IPv4_String (b ! 4) (b ! 5) (b ! 6) (b ! 7) @ '':'' @ Itoa port,
               IsV4A = False,
               UserId = string_of_bytes (take (n - 1 - 8) (drop 8 b))\<rparr>)"

subsection \<open>Replies\<close>

text \<open>
  The reply's port field is called \<^verbatim>\<open>Port\<close> in the source, as the request's is; it is
  \<open>BndPort\<close> here, since two records cannot share a field name. \<^verbatim>\<open>net.IP\<close> is a byte
  slice, and the nil slice is the empty list.
\<close>

record Reply =
  Cd :: byte
  BndPort :: int
  IP :: "byte list"

text \<open>
  \<^verbatim>\<open>Reply.ToBytes\<close>. The conversion \<^verbatim>\<open>uint16(r.Port)\<close> keeps the low 16 bits.
\<close>

definition ToBytes :: "Reply \<Rightarrow> byte list" where
  "ToBytes r =
     (let b = [0];
          b = (if Cd r \<noteq> Granted \<and> Cd r \<noteq> RejectOrFailure
                  \<and> Cd r \<noteq> RejectNoIdentd \<and> Cd r \<noteq> RejectWrongUserId
               then b @ [RejectOrFailure]
               else b @ [Cd r]);
          b = AppendUint16 b (word_of_int (BndPort r));
          ip = To4 (IP r)
      in b @ ip)"


section \<open>Session handler (server file of package socks4)\<close>

subsection \<open>The transport, as the handler sees it\<close>

text \<open>
  The handler reaches the network through \<^verbatim>\<open>net.Conn\<close>, \<^verbatim>\<open>net.Listener\<close>,
  \<^verbatim>\<open>net.Dial\<close> and \<^verbatim>\<open>net.Listen\<close>. What these calls answer is not decided by the
  program: it is the environment of a session, and the calls the session makes are
  recorded, in order, in a trace.
\<close>

type_synonym net_error = string

record TCPAddr =
  addr_IP :: "byte list"
  addr_Port :: int

text \<open>
  Of a peer connection the handler uses its local address, as
  \<^verbatim>\<open>net.ResolveTCPAddr("tcp", remote.LocalAddr().String())\<close> gives it, and \<^verbatim>\<open>Close\<close>;
  of a listener its address, resolved the same way, \<^verbatim>\<open>Accept\<close> and \<^verbatim>\<open>Close\<close>.
\<close>

record Conn =
  local_addr :: "net_error + TCPAddr"

record Listener =
  lis_addr :: "net_error + TCPAddr"

text \<open>
  What \<^verbatim>\<open>lis.Accept()\<close> of a BIND session meets: an inbound connection, an error, or
  nobody within the 120 seconds, after which the timer goroutine closes the listener and
  \<^verbatim>\<open>Accept\<close> fails on the closed listener.
\<close>

datatype accepting = Inbound Conn | AcceptFailed net_error | NoInbound

definition errClosed :: net_error where
  "errClosed = ''use of closed network connection''"

record env =
  dial :: "string \<Rightarrow> net_error + Conn"
  listen :: "net_error + Listener"
  accept :: accepting
  write_err :: "nat \<Rightarrow> net_error option"

text \<open>
  The errors a session ends with: a decode error or a transport error returned as it is,
  or one of the five messages \<^verbatim>\<open>establishProxy\<close> formats with \<^verbatim>\<open>fmt.Errorf\<close>. The
  formatted value is an \<^verbatim>\<open>error\<close> that may be nil, hence the options.
\<close>

datatype error =
    Decode DecodeError
  | Net net_error
  | ReadFailed net_error
  | ReplyFailed "net_error option"
  | ConnectFailed "net_error option"
  | BindFailed "net_error option"
  | UnexpectedCommand byte

datatype event =
    ClientRead nat
  | ClientWrite "byte list"
  | ClientClose
  | Dial string
  | Listen
  | Accept
  | ListenerClose
  | PeerClose
  | Transfer
  | WgDone
  | Debugf "byte list"
  | Warnf error
  | Infof

text \<open>
  The state of a session: the fragments the client connection will deliver, one to a
  \<^verbatim>\<open>Read\<close> (none left: the read fails), and the trace so far.
\<close>

record world =
  client_in :: "byte list list"
  trace :: "event list"

definition emit :: "event \<Rightarrow> world \<Rightarrow> world" where
  "emit ev w = w\<lparr>trace := trace w @ [ev]\<rparr>"

fun client_writes :: "event list \<Rightarrow> byte list list" where
  "client_writes [] = []"
| "client_writes (ClientWrite bs # evs) = bs # client_writes evs"
| "client_writes (ev # evs) = client_writes evs"

fun client_reads :: "event list \<Rightarrow> nat list" where
  "client_reads [] = []"
| "client_reads (ClientRead n # evs) = n # client_reads evs"
| "client_reads (ev # evs) = client_reads evs"

text \<open>
  \<^verbatim>\<open>conn.Read(b)\<close> with a buffer of \<open>cap\<close> bytes: at most \<open>cap\<close> bytes of the next
  fragment; what does not fit stays for a later read.
\<close>

definition connRead :: "nat \<Rightarrow> world \<Rightarrow> (net_error + byte list) \<times> world" where
  "connRead cap w =
     (case client_in w of
        [] \<Rightarrow> (Inl ''EOF'', emit (ClientRead cap) w)
      | f # fs \<Rightarrow>
          (Inr (take cap f),
           emit (ClientRead cap)
             (w\<lparr>client_in := (if length f \<le> cap then fs else drop cap f # fs)\<rparr>)))"

text \<open>
  \<^verbatim>\<open>conn.Write(bs)\<close>: the outcome of the \<open>k\<close>-th write of the session is the
  environment's \<open>write_err e k\<close>, \<open>None\<close> for success.
\<close>

definition connWrite :: "env \<Rightarrow> byte list \<Rightarrow> world \<Rightarrow> net_error option \<times> world" where
  "connWrite e bs w =
     (write_err e (length (client_writes (trace w))), emit (ClientWrite bs) w)"

text \<open>
  \<^verbatim>\<open>remote.Close()\<close> on a \<^verbatim>\<open>net.Conn\<close> that may be nil. A method call on the nil
  interface value panics: \<open>None\<close> is the panic.
\<close>

definition closeRemote :: "Conn option \<Rightarrow> world \<Rightarrow> world option" where
  "closeRemote remote w = (case remote of None \<Rightarrow> None | Some c \<Rightarrow> Some (emit PeerClose w))"

subsection \<open>Establishing the peer connection\<close>

text \<open>
  \<^verbatim>\<open>establishConnect\<close> and \<^verbatim>\<open>establishBind\<close> return the pair
  \<^verbatim>\<open>(net.Conn, error)\<close> of the source: \<^verbatim>\<open>nil, err\<close> on failure, \<^verbatim>\<open>remote, nil\<close> on
  success.
\<close>

definition establishConnect ::
  "env \<Rightarrow> Request \<Rightarrow> world \<Rightarrow> (Conn option \<times> net_error option) \<times> world" where
  "establishConnect e req w =
     (case dial e (Address req) of
        Inl err \<Rightarrow> ((None, Some err), emit (Dial (Address req)) w)
      | Inr remote \<Rightarrow> ((Some remote, None), emit (Dial (Address req)) w))"

text \<open>
  \<^verbatim>\<open>establishBind\<close>. The deferred \<^verbatim>\<open>lis.Close()\<close> runs at every return after the
  listener exists. The first reply carries the listener's port and no address.
\<close>

definition establishBind ::
  "env \<Rightarrow> Request \<Rightarrow> world \<Rightarrow> (Conn option \<times> net_error option) \<times> world" where
  "establishBind e req w =
     (case listen e of
        Inl err \<Rightarrow> ((None, Some err), emit Listen w)
      | Inr lis \<Rightarrow>
          (let w1 = emit Listen w in
           case lis_addr lis of
             Inl err \<Rightarrow> ((None, Some err), emit ListenerClose w1)
           | Inr addr \<Rightarrow>
               (case connWrite e (ToBytes \<lparr>Cd = Granted, BndPort = addr_Port addr, IP = []\<rparr>) w1 of
                  (Some err, w2) \<Rightarrow> ((None, Some err), emit ListenerClose w2)
                | (None, w2) \<Rightarrow>
                    (case accept e of
                       NoInbound \<Rightarrow>
                         ((None, Some errClosed),
                          emit ListenerClose (emit ListenerClose (emit Accept w2)))
                     | AcceptFailed err \<Rightarrow>
                         ((None, Some err), emit ListenerClose (emit Accept w2))
                     | Inbound remote \<Rightarrow>
                         ((Some remote, None), emit ListenerClose (emit Accept w2))))))"

datatype outcome = Established Conn | Aborted error | Panicked

text \<open>
  The end of \<^verbatim>\<open>establishProxy\<close>, after the dispatch on the command: resolve the local
  address of the peer connection and send the GRANTED reply. The address of the reply is
  \<^verbatim>\<open>net.ParseIP(addr.IP.String()).To4()\<close>: printing and parsing an address gives the same
  address in 16-byte form, or nil for a slice that is no address, so this is \<open>To4\<close> of
  the address itself.
\<close>

definition replyGranted :: "env \<Rightarrow> Conn option \<Rightarrow> world \<Rightarrow> outcome \<times> world" where
  "replyGranted e remote w =
     (case remote of
        None \<Rightarrow> (Panicked, w)
      | Some c \<Rightarrow>
          (case local_addr c of
             Inl err \<Rightarrow> (Aborted (Net err), emit PeerClose w)
           | Inr addr \<Rightarrow>
               (case connWrite e (ToBytes \<lparr>Cd = Granted, BndPort = addr_Port addr,
                                           IP = To4 (addr_IP addr)\<rparr>) w of
                  (Some err, w1) \<Rightarrow> (Aborted (Net err), emit PeerClose w1)
                | (None, w1) \<Rightarrow> (Established c, w1))))"

text \<open>
  \<^verbatim>\<open>establishProxy\<close>: one read into a buffer of 41 bytes, the decoding of what was
  read, and the dispatch on the command. The two error branches are written as in the
  source: after the rejection reply is written, the CONNECT branch tests \<^verbatim>\<open>err\<close>, the
  BIND branch tests \<^verbatim>\<open>wErr\<close>, and both call \<^verbatim>\<open>remote.Close()\<close> on the connection that
  the failed call returned.
\<close>

definition establishProxy :: "env \<Rightarrow> world \<Rightarrow> outcome \<times> world" where
  "establishProxy e w =
     (case connRead 41 w of
        (Inl err, w1) \<Rightarrow> (Aborted (ReadFailed err), w1)
      | (Inr b, w1) \<Rightarrow>
          (let w2 = emit (Debugf b) w1 in
           case ParseRequest b of
             Inl err \<Rightarrow> (Aborted (Decode err), w2)
           | Inr req \<Rightarrow>
               if Cmd req = CmdConnect then
                 (case establishConnect e req w2 of
                    ((remote, err), w3) \<Rightarrow>
                      if err \<noteq> None then
                        (case connWrite e (ToBytes \<lparr>Cd = RejectOrFailure, BndPort = 0, IP = []\<rparr>) w3 of
                           (wErr, w4) \<Rightarrow>
                             if err \<noteq> None then
                               (case closeRemote remote w4 of
                                  None \<Rightarrow> (Panicked, w4)
                                | Some w5 \<Rightarrow> (Aborted (ReplyFailed wErr), w5))
                             else (Aborted (ConnectFailed err), w4))
                      else replyGranted e remote w3)
               else if Cmd req = CmdBind then
                 (case establishBind e req w2 of
                    ((remote, err), w3) \<Rightarrow>
                      if err \<noteq> None then
                        (case connWrite e (ToBytes \<lparr>Cd = RejectOrFailure, BndPort = 0, IP = []\<rparr>) w3 of
                           (wErr, w4) \<Rightarrow>
                             if wErr \<noteq> None then
                               (case closeRemote remote w4 of
                                  None \<Rightarrow> (Panicked, w4)
                                | Some w5 \<Rightarrow> (Aborted (ReplyFailed wErr), w5))
                             else (Aborted (BindFailed err), w4))
                      else replyGranted e remote w3)
               else (Aborted (UnexpectedCommand (Cmd req)), w2)))"

subsection \<open>One session\<close>

text \<open>
  \<^verbatim>\<open>handleConn\<close> runs in a goroutine of its own (\<^verbatim>\<open>go s.handleConn(conn)\<close>) and has no
  \<^verbatim>\<open>recover\<close>. It either returns, or a panic unwinds it: the deferred calls run and
  then, as for every panic that leaves a goroutine, the Go runtime terminates the
  program. The relay (\<^verbatim>\<open>transfer\<close>) is one event of the trace.
\<close>

datatype goroutine_end = Returned | Crashed

definition handleConn :: "env \<Rightarrow> world \<Rightarrow> goroutine_end \<times> world" where
  "handleConn e w =
     (case establishProxy e w of
        (Panicked, w1) \<Rightarrow> (Crashed, emit ClientClose (emit WgDone w1))
      | (Aborted err, w1) \<Rightarrow>
          (Returned, emit ClientClose (emit WgDone (emit (Warnf err) w1)))
      | (Established remote, w1) \<Rightarrow>
          (Returned,
           emit ClientClose (emit WgDone (emit PeerClose (emit Transfer (emit Infof w1))))))"

subsection \<open>Sessions used as examples\<close>

text \<open>A client that sends one request in one piece, and writes that all succeed.\<close>

definition client :: "byte list \<Rightarrow> world" where
  "client request = \<lparr>client_in = [request], trace = []\<rparr>"

text \<open>An environment where the dial is refused.\<close>

definition refusing :: env where
  "refusing = \<lparr>dial = (\<lambda>a. Inl ''connection refused''),
               listen = Inl ''address in use'',
               accept = NoInbound,
               write_err = (\<lambda>k. None)\<rparr>"

text \<open>
  An environment where the listener of a BIND session is on port 40000 and nobody
  connects to it.
\<close>

definition nobody :: env where
  "nobody = \<lparr>dial = (\<lambda>a. Inl ''connection refused''),
             listen = Inr \<lparr>lis_addr = Inr \<lparr>addr_IP = replicate 16 0, addr_Port = 40000\<rparr>\<rparr>,
             accept = NoInbound,
             write_err = (\<lambda>k. None)\<rparr>"

text \<open>
  A CONNECT request in the extended form that is 44 bytes long: an empty identity and a
  name of 34 bytes. Its first 41 bytes end inside the name.
\<close>

definition long_request :: "byte list" where
  "long_request =
     [4, 1, 0, 80, 0, 0, 0, 1, 0,
      0x61, 0x61, 0x61, 0x61, 0x61, 0x61, 0x61, 0x61, 0x61, 0x61,
      0x61, 0x61, 0x61, 0x61, 0x61, 0x61, 0x61, 0x61, 0x61, 0x61,
      0x61, 0x61, 0x61, 0x61, 0x61, 0x61, 0x61, 0x61, 0x61, 0x61,
      0x2e, 0x62, 0x63, 0x64,
      0]"

section \<open>Facts about the library functions\<close>

lemmas socks_consts =
  Version4_def CmdConnect_def CmdBind_def Granted_def RejectOrFailure_def
  RejectNoIdentd_def RejectWrongUserId_def NullByte_def

lemmas text_eval =
  string_of_bytes_def IPv4_String_def Itoa_def digits.simps char_of_def bit_0


lemma uint_Uint16: "uint (Uint16 hi lo) = 256 * uint hi + uint lo"
proof -
  have disj: "(ucast lo :: 16 word) AND push_bit 8 (ucast hi) = 0"
    by (rule bit_word_eqI) (auto simp: bit_simps dest: bit_imp_le_length)
  have eq: "Uint16 hi lo = ucast lo + push_bit 8 (ucast hi)"
    unfolding Uint16_def by (simp add: disjunctive_add_eq_or [OF disj])
  have lo: "uint (ucast lo :: 16 word) = uint lo"
    by (simp add: uint_up_ucast is_up)
  have hi: "uint (ucast hi :: 16 word) = uint hi"
    by (simp add: uint_up_ucast is_up)
  have bl: "uint lo < 256" "0 \<le> uint lo"
    using uint_bounded [of lo] by simp_all
  have bh: "uint hi < 256" "0 \<le> uint hi"
    using uint_bounded [of hi] by simp_all
  have "uint (push_bit 8 (ucast hi :: 16 word)) = (256 * uint hi) mod 65536"
    by (simp add: push_bit_eq_mult uint_word_ariths hi mult.commute)
  with bh have ph: "uint (push_bit 8 (ucast hi :: 16 word)) = 256 * uint hi"
    by simp
  have "uint (Uint16 hi lo) = (uint lo + 256 * uint hi) mod 65536"
    unfolding eq by (simp add: uint_word_ariths lo ph)
  with bl bh show ?thesis by simp
qed

lemma uint_low_byte: "uint (ucast (word_of_int p :: 16 word) :: byte) = p mod 256"
proof -
  have "uint (ucast (word_of_int p :: 16 word) :: byte) = take_bit 8 (take_bit 16 p)"
    by (simp add: unsigned_ucast_eq uint_word_of_int_eq)
  also have "\<dots> = take_bit 8 p"
    by simp
  also have "\<dots> = p mod 256"
    by (simp add: take_bit_eq_mod)
  finally show ?thesis .
qed

lemma uint_high_byte:
  "uint (ucast (drop_bit 8 (word_of_int p :: 16 word)) :: byte) = (p mod 65536) div 256"
proof -
  have "uint (ucast (drop_bit 8 (word_of_int p :: 16 word)) :: byte)
        = take_bit 8 (drop_bit 8 (take_bit 16 p))"
    by (simp add: unsigned_ucast_eq unsigned_drop_bit_eq uint_word_of_int_eq)
  also have "\<dots> = drop_bit 8 (take_bit 16 p)"
    by (simp add: take_bit_drop_bit)
  also have "\<dots> = (p mod 65536) div 256"
    by (simp add: take_bit_eq_mod drop_bit_eq_div)
  finally show ?thesis .
qed

text \<open>The split has one more piece than the input has separators.\<close>

lemma length_Split: "length (Split s sep) = Suc (count_list s sep)"
  by (induction s) (auto split: list.splits)

lemma Split_no_sep: "sep \<notin> set u \<Longrightarrow> Split u sep = [u]"
  by (induction u) (auto split: list.splits)

lemma Split_field: "sep \<notin> set u \<Longrightarrow> Split (u @ sep # v) sep = u # Split v sep"
  by (induction u) (auto split: list.splits)

text \<open>
  A message body \<open>ident 0 name 0 rest\<close> whose three parts are free of NUL splits into
  exactly these parts.
\<close>

lemma Split_three:
  assumes "sep \<notin> set ident" and "sep \<notin> set name" and "sep \<notin> set rest"
  shows "Split (ident @ sep # name @ sep # rest) sep = [ident, name, rest]"
  using assms by (simp add: Split_field Split_no_sep)

lemma slice_nth:
  "j + k \<le> length xs \<Longrightarrow> take k (drop j xs) = map ((!) xs) [j ..< j + k]"
  by (simp add: list_eq_iff_nth_eq)

section \<open>Decoding requests\<close>

text \<open>
  C7. Every input of fewer than 9 bytes is refused with \<open>MalformedRequest\<close>.
\<close>

theorem ParseRequest_short:
  "length b < 9 \<Longrightarrow> ParseRequest b = Inl MalformedRequest"
  by (simp add: ParseRequest_def)

theorem ParseRequest_short_witness:
  "length [4, 1, 0, 80, 7 :: byte] < 9
   \<and> ParseRequest [4, 1, 0, 80, 7] = Inl MalformedRequest"
  using ParseRequest_short [of "[4, 1, 0, 80, 7]"] by simp

text \<open>
  C8, as the claim states it, fails: the length check comes before the version check,
  so a short input with a version byte other than 0x04 is refused with
  \<open>MalformedRequest\<close>, not with \<open>UnsupportedVersion\<close>.
\<close>

theorem ParseRequest_version_counterexample:
  "[5, 1, 0, 80 :: byte] ! 0 \<noteq> Version4
   \<and> ParseRequest [5, 1, 0, 80] \<noteq> Inl UnsupportedVersion"
  by (simp add: ParseRequest_def Version4_def)

text \<open>
  C8, amended. Every input of at least 9 bytes whose version byte is not 0x04 is refused
  with \<open>UnsupportedVersion\<close>.
\<close>

theorem ParseRequest_version:
  "9 \<le> length b \<Longrightarrow> b ! 0 \<noteq> Version4 \<Longrightarrow> ParseRequest b = Inl UnsupportedVersion"
  by (simp add: ParseRequest_def)

theorem ParseRequest_version_witness:
  "9 \<le> length [5, 1, 0, 80, 7, 7, 7, 7, 0 :: byte]
   \<and> [5, 1, 0, 80, 7, 7, 7, 7, 0 :: byte] ! 0 \<noteq> Version4
   \<and> ParseRequest [5, 1, 0, 80, 7, 7, 7, 7, 0] = Inl UnsupportedVersion"
  using ParseRequest_version [of "[5, 1, 0, 80, 7, 7, 7, 7, 0]"]
  by (simp add: Version4_def)

text \<open>
  C6. A literal-form request (at least 9 bytes, version 0x04, command CONNECT or BIND,
  bytes 4 to 7 not of the form 0.0.0.x with x non-zero) is decoded: the port is the
  big-endian number in bytes 2 and 3, and the address is the dotted form of bytes 4 to
  7, a colon and the decimal port.
\<close>

theorem ParseRequest_literal:
  assumes len: "9 \<le> length b"
    and vn: "b ! 0 = Version4"
    and cd: "b ! 1 = CmdConnect \<or> b ! 1 = CmdBind"
    and lit: "\<not> (b ! 4 = 0 \<and> b ! 5 = 0 \<and> b ! 6 = 0 \<and> b ! 7 \<noteq> 0)"
  shows "\<exists>req. ParseRequest b = Inr req
           \<and> Port req = 256 * uint (b ! 2) + uint (b ! 3)
           \<and> Address req
               = IPv4_String (b ! 4) (b ! 5) (b ! 6) (b ! 7) @ '':''
                 @ Itoa (256 * uint (b ! 2) + uint (b ! 3))
           \<and> \<not> IsV4A req"
  using assms by (auto simp add: ParseRequest_def Let_def uint_Uint16)

theorem ParseRequest_literal_witness:
  "\<exists>req. ParseRequest [4, 1, 0x1f, 0x90, 192, 168, 0, 1, 0x61, 0] = Inr req
     \<and> Port req = 8080 \<and> Address req = ''192.168.0.1:8080'' \<and> \<not> IsV4A req"
  using ParseRequest_literal [of "[4, 1, 0x1f, 0x90, 192, 168, 0, 1, 0x61, 0]"]
  by (simp add: socks_consts text_eval)

text \<open>
  C10. A literal-form request always decodes, and the identity returned is bytes 8 to
  \<open>n - 2\<close> of the message: the last byte is dropped whatever it is.
\<close>

theorem ParseRequest_identity:
  assumes len: "9 \<le> length b"
    and vn: "b ! 0 = Version4"
    and cd: "b ! 1 = CmdConnect \<or> b ! 1 = CmdBind"
    and lit: "\<not> (b ! 4 = 0 \<and> b ! 5 = 0 \<and> b ! 6 = 0 \<and> b ! 7 \<noteq> 0)"
  shows "\<exists>req. ParseRequest b = Inr req
           \<and> UserId req = string_of_bytes (map ((!) b) [8 ..< length b - 1])"
proof -
  have "take (length b - 1 - 8) (drop 8 b) = map ((!) b) [8 ..< 8 + (length b - 1 - 8)]"
    using len by (intro slice_nth) simp
  moreover have "8 + (length b - 1 - 8) = length b - 1"
    using len by simp
  ultimately show ?thesis
    using assms by (auto simp add: ParseRequest_def Let_def)
qed

text \<open>The witness is a message whose last byte, 0x63, is no terminator.\<close>

theorem ParseRequest_identity_witness:
  "\<exists>req. ParseRequest [4, 1, 0, 80, 7, 7, 7, 7, 0x61, 0x62, 0x63] = Inr req
     \<and> UserId req = ''ab''"
  using ParseRequest_identity [of "[4, 1, 0, 80, 7, 7, 7, 7, 0x61, 0x62, 0x63]"]
  by (simp add: socks_consts text_eval upt_rec)

text \<open>
  C5. A request of at least 9 bytes with version 0x04, command CONNECT or BIND, bytes 4
  to 6 zero and byte 7 non-zero is read in the extended form. The bytes from offset 8
  are split at NUL: a number of pieces other than three is refused with
  \<open>MalformedExtendedRequest\<close>; with three pieces the request is extended, its address is
  the second piece, a colon and the decimal port, and its identity is the first piece,
  whatever that is. By \<open>length_Split\<close> three pieces are two NUL bytes, and by
  \<open>Split_three\<close> the pieces of \<open>ident 0 name 0 rest\<close> are \<open>ident\<close>, \<open>name\<close> and
  \<open>rest\<close>.
\<close>

theorem ParseRequest_extended:
  assumes len: "9 \<le> length b"
    and vn: "b ! 0 = Version4"
    and cd: "b ! 1 = CmdConnect \<or> b ! 1 = CmdBind"
    and ext: "b ! 4 = 0" "b ! 5 = 0" "b ! 6 = 0" "b ! 7 \<noteq> 0"
  shows "(length (Split (drop 8 b) NullByte) \<noteq> 3
            \<longrightarrow> ParseRequest b = Inl MalformedExtendedRequest)
       \<and> (\<forall>ident name rest. Split (drop 8 b) NullByte = [ident, name, rest]
            \<longrightarrow> (\<exists>req. ParseRequest b = Inr req \<and> IsV4A req
                   \<and> Address req
                       = string_of_bytes name @ '':'' @ Itoa (256 * uint (b ! 2) + uint (b ! 3))
                   \<and> UserId req = string_of_bytes ident))"
  using assms by (auto simp add: ParseRequest_def Let_def uint_Uint16)

text \<open>
  The witness has a message with one NUL after offset 8, which is refused, and one with
  an empty identity and the name \<open>a.b\<close>.
\<close>

theorem ParseRequest_extended_witness:
  "ParseRequest [4, 1, 1, 187, 0, 0, 0, 1, 0] = Inl MalformedExtendedRequest
   \<and> (\<exists>req. ParseRequest [4, 1, 1, 187, 0, 0, 0, 1, 0, 0x61, 0x2e, 0x62, 0] = Inr req
         \<and> IsV4A req \<and> Address req = ''a.b:443'' \<and> UserId req = [])"
  using ParseRequest_extended [of "[4, 1, 1, 187, 0, 0, 0, 1, 0]"]
    ParseRequest_extended [of "[4, 1, 1, 187, 0, 0, 0, 1, 0, 0x61, 0x2e, 0x62, 0]"]
  by (simp add: socks_consts text_eval)

section \<open>Encoding replies\<close>

lemma To4_four: "length ip = 4 \<Longrightarrow> To4 ip = ip"
  by (simp add: To4_def)

lemma To4_mapped:
  assumes "length ip = 16" and "take 12 ip = replicate 10 0 @ [0xff, 0xff]"
  shows "To4 ip = drop 12 ip"
proof -
  have "take 10 ip = take 10 (take 12 ip)"
    by simp
  also have "\<dots> = replicate 10 0"
    unfolding assms(2) by simp
  finally have z: "list_all (\<lambda>x. x = 0) (take 10 ip)"
    by (simp add: list_all_iff)
  have "ip ! 10 = take 12 ip ! 10" "ip ! 11 = take 12 ip ! 11"
    by simp_all
  then have "ip ! 10 = 0xff" "ip ! 11 = 0xff"
    unfolding assms(2) by (simp_all add: nth_append)
  with z assms(1) show ?thesis
    by (simp add: To4_def)
qed

text \<open>
  C3, as the claim states it, fails: a reply whose address is nil is encoded in four
  bytes. This is the first reply of a BIND session, \<^verbatim>\<open>Reply{Cd: Granted, Port:
  addr.Port}\<close>, here with port 40000.
\<close>

theorem ToBytes_no_address_counterexample:
  "ToBytes \<lparr>Cd = Granted, BndPort = 40000, IP = []\<rparr> = [0, 0x5a, 0x9c, 0x40]
   \<and> length (ToBytes \<lparr>Cd = Granted, BndPort = 40000, IP = []\<rparr>) \<noteq> 8"
  by (simp add: ToBytes_def AppendUint16_def To4_def socks_consts)

text \<open>
  C3, amended. For a reply whose address is an IPv4 address, in 4 bytes or in the
  16-byte IPv4-mapped form, the encoding has 8 bytes: a zero byte, the status (0x5b in
  place of a status outside 0x5a to 0x5d), the low 16 bits of the port in big-endian
  order, and the four bytes of the address.
\<close>

theorem ToBytes_ipv4:
  assumes "length (IP r) = 4
           \<or> (length (IP r) = 16 \<and> take 12 (IP r) = replicate 10 0 @ [0xff, 0xff])"
  shows "length (ToBytes r) = 8
       \<and> ToBytes r ! 0 = 0
       \<and> ToBytes r ! 1 = (if Cd r \<in> {0x5a, 0x5b, 0x5c, 0x5d} then Cd r else 0x5b)
       \<and> uint (ToBytes r ! 2) = (BndPort r mod 65536) div 256
       \<and> uint (ToBytes r ! 3) = BndPort r mod 256
       \<and> drop 4 (ToBytes r) = (if length (IP r) = 4 then IP r else drop 12 (IP r))"
proof -
  have t: "To4 (IP r) = (if length (IP r) = 4 then IP r else drop 12 (IP r))"
    using assms by (auto simp add: To4_four To4_mapped)
  have l: "length (To4 (IP r)) = 4"
    using assms unfolding t by auto
  show ?thesis
    unfolding ToBytes_def AppendUint16_def Let_def
    using l by (simp add: t socks_consts uint_high_byte uint_low_byte)
qed

theorem ToBytes_ipv4_witness:
  "ToBytes \<lparr>Cd = 0x07, BndPort = 40000, IP = [10, 0, 0, 1]\<rparr>
     = [0, 0x5b, 0x9c, 0x40, 10, 0, 0, 1]"
  using ToBytes_ipv4 [of "\<lparr>Cd = 0x07, BndPort = 40000, IP = [10, 0, 0, 1]\<rparr>"]
  by (simp add: ToBytes_def AppendUint16_def To4_def socks_consts)

section \<open>Sessions\<close>

lemmas session_defs =
  handleConn_def establishProxy_def establishConnect_def establishBind_def
  replyGranted_def connRead_def connWrite_def closeRemote_def emit_def

lemma client_reads_append: "client_reads (xs @ ys) = client_reads xs @ client_reads ys"
  by (induction xs rule: client_reads.induct) simp_all

lemma client_writes_append: "client_writes (xs @ ys) = client_writes xs @ client_writes ys"
  by (induction xs rule: client_writes.induct) simp_all

lemma ParseRequest_connect_example:
  "ParseRequest [4, 1, 0, 80, 7, 7, 7, 7, 0]
   = Inr \<lparr>Version = 4, Cmd = 1, Port = 80, Address = ''7.7.7.7:80'', IsV4A = False,
          UserId = []\<rparr>"
  by (simp add: ParseRequest_def socks_consts text_eval Uint16_def)

lemma ParseRequest_bind_example:
  "ParseRequest [4, 2, 0, 80, 7, 7, 7, 7, 0]
   = Inr \<lparr>Version = 4, Cmd = 2, Port = 80, Address = ''7.7.7.7:80'', IsV4A = False,
          UserId = []\<rparr>"
  by (simp add: ParseRequest_def socks_consts text_eval Uint16_def)

subsection \<open>A failed dial\<close>

text \<open>
  Whenever the dial of a CONNECT request fails, \<^verbatim>\<open>establishProxy\<close> writes the rejection
  reply and then panics, whatever the write answered: the test after the write is on
  \<^verbatim>\<open>err\<close>, which is not nil in this branch, and \<^verbatim>\<open>remote\<close> is nil.
\<close>

lemma connect_dial_failure:
  assumes rd: "client_in w = f # fs"
    and req: "ParseRequest (take 41 f) = Inr req" "Cmd req = CmdConnect"
    and dl: "dial e (Address req) = Inl err"
  shows "fst (establishProxy e w) = Panicked"
    and "fst (handleConn e w) = Crashed"
    and "client_writes (trace (snd (establishProxy e w)))
           = client_writes (trace w) @ [ToBytes \<lparr>Cd = RejectOrFailure, BndPort = 0, IP = []\<rparr>]"
  by (simp_all add: session_defs assms Let_def client_writes_append)

text \<open>
  C1 states that no failure of a session terminates the server process. The session of
  a client that asks to CONNECT to 7.7.7.7:80, where the dial is refused, ends in a panic
  of its goroutine, which terminates the process.
\<close>

theorem handleConn_dial_failure_crashes:
  "fst (handleConn refusing (client [4, 1, 0, 80, 7, 7, 7, 7, 0])) = Crashed"
  by (simp add: session_defs client_def refusing_def ParseRequest_connect_example socks_consts)

text \<open>
  C2 states that after a failed dial the handler sends the rejection reply and returns
  the dial error. In the same session \<^verbatim>\<open>establishProxy\<close> sends the reply, in four bytes,
  and then panics: it returns no error at all.
\<close>

theorem establishProxy_dial_failure_panics:
  "establishProxy refusing (client [4, 1, 0, 80, 7, 7, 7, 7, 0])
     = (Panicked,
        \<lparr>client_in = [],
         trace = [ClientRead 41, Debugf [4, 1, 0, 80, 7, 7, 7, 7, 0], Dial ''7.7.7.7:80'',
                  ClientWrite [0, 0x5b, 0, 0]]\<rparr>)
   \<and> fst (establishProxy refusing (client [4, 1, 0, 80, 7, 7, 7, 7, 0]))
       \<noteq> Aborted (ConnectFailed (Some ''connection refused''))"
  by (simp add: session_defs client_def refusing_def ParseRequest_connect_example socks_consts
        ToBytes_def AppendUint16_def To4_def)

subsection \<open>A BIND session nobody connects to\<close>

text \<open>
  C4, as the claim states it, fails: when nobody connects to the listener, the client is
  sent two messages, the first reply and then a rejection reply.
\<close>

theorem bind_timeout_counterexample:
  "accept nobody = NoInbound
   \<and> client_writes (trace (snd (handleConn nobody (client [4, 2, 0, 80, 7, 7, 7, 7, 0]))))
       = [[0, 0x5a, 0x9c, 0x40], [0, 0x5b, 0, 0]]"
  by (simp add: session_defs client_def nobody_def ParseRequest_bind_example socks_consts
        ToBytes_def AppendUint16_def To4_def)

text \<open>
  C4, amended. In a BIND session that has sent its first reply and that nobody connects
  to within the limit, the listener is closed, the accept fails, and a second message,
  the encoding of a REJECTED_OR_FAILED reply, is written to the client; these two are all
  the session writes. When that second write succeeds, the session aborts with the error
  of the accept and the client connection is closed.
\<close>

theorem bind_timeout:
  assumes fresh: "trace w = []"
    and rd: "client_in w = f # fs"
    and req: "ParseRequest (take 41 f) = Inr req" "Cmd req = CmdBind"
    and lis: "listen e = Inr l" "lis_addr l = Inr a"
    and w0: "write_err e 0 = None"
    and acc: "accept e = NoInbound"
  shows "client_writes (trace (snd (handleConn e w)))
           = [ToBytes \<lparr>Cd = Granted, BndPort = addr_Port a, IP = []\<rparr>,
              ToBytes \<lparr>Cd = RejectOrFailure, BndPort = 0, IP = []\<rparr>]
       \<and> (write_err e 1 = None \<longrightarrow>
            fst (handleConn e w) = Returned
          \<and> trace (snd (handleConn e w))
              = [ClientRead 41, Debugf (take 41 f), Listen,
                 ClientWrite (ToBytes \<lparr>Cd = Granted, BndPort = addr_Port a, IP = []\<rparr>),
                 Accept, ListenerClose, ListenerClose,
                 ClientWrite (ToBytes \<lparr>Cd = RejectOrFailure, BndPort = 0, IP = []\<rparr>),
                 Warnf (BindFailed (Some errClosed)), WgDone, ClientClose])"
proof -
  have ne: "CmdBind \<noteq> CmdConnect"
    by (simp add: socks_consts)
  show ?thesis
    using ne by (simp add: session_defs assms Let_def split: option.split)
qed

theorem bind_timeout_witness:
  "fst (handleConn nobody (client [4, 2, 0, 80, 7, 7, 7, 7, 0])) = Returned
   \<and> trace (snd (handleConn nobody (client [4, 2, 0, 80, 7, 7, 7, 7, 0])))
       = [ClientRead 41, Debugf [4, 2, 0, 80, 7, 7, 7, 7, 0], Listen,
          ClientWrite [0, 0x5a, 0x9c, 0x40], Accept, ListenerClose, ListenerClose,
          ClientWrite [0, 0x5b, 0, 0],
          Warnf (BindFailed (Some ''use of closed network connection'')), WgDone, ClientClose]"
  using bind_timeout [of "client [4, 2, 0, 80, 7, 7, 7, 7, 0]" "[4, 2, 0, 80, 7, 7, 7, 7, 0]" "[]"
      "\<lparr>Version = 4, Cmd = 2, Port = 80, Address = ''7.7.7.7:80'', IsV4A = False, UserId = []\<rparr>"
      nobody "\<lparr>lis_addr = Inr \<lparr>addr_IP = replicate 16 0, addr_Port = 40000\<rparr>\<rparr>"
      "\<lparr>addr_IP = replicate 16 0, addr_Port = 40000\<rparr>"]
  by (simp add: client_def nobody_def ParseRequest_bind_example socks_consts
        ToBytes_def AppendUint16_def To4_def errClosed_def)

subsection \<open>The single read\<close>

text \<open>
  After the read, the handler looks at the world only through its trace: two worlds with
  the same trace get the same answers and the same new events.
\<close>

lemma establishConnect_cong:
  "trace w = trace w' \<Longrightarrow>
   fst (establishConnect e req w) = fst (establishConnect e req w')
   \<and> trace (snd (establishConnect e req w)) = trace (snd (establishConnect e req w'))"
  by (simp add: establishConnect_def emit_def split: sum.split)

lemma establishBind_cong:
  "trace w = trace w' \<Longrightarrow>
   fst (establishBind e req w) = fst (establishBind e req w')
   \<and> trace (snd (establishBind e req w)) = trace (snd (establishBind e req w'))"
  by (simp add: establishBind_def connWrite_def emit_def Let_def
        split: sum.split option.split accepting.split)

lemma replyGranted_cong:
  "trace w = trace w' \<Longrightarrow>
   fst (replyGranted e remote w) = fst (replyGranted e remote w')
   \<and> trace (snd (replyGranted e remote w)) = trace (snd (replyGranted e remote w'))"
  by (simp add: replyGranted_def connWrite_def emit_def split: sum.split option.split)

lemma client_reads_establishConnect:
  "client_reads (trace (snd (establishConnect e req w))) = client_reads (trace w)"
  by (simp add: establishConnect_def emit_def client_reads_append split: sum.split)

lemma client_reads_establishBind:
  "client_reads (trace (snd (establishBind e req w))) = client_reads (trace w)"
  by (simp add: establishBind_def connWrite_def emit_def Let_def client_reads_append
        split: sum.split option.split accepting.split)

lemma client_reads_replyGranted:
  "client_reads (trace (snd (replyGranted e remote w))) = client_reads (trace w)"
  by (simp add: replyGranted_def connWrite_def emit_def client_reads_append
        split: sum.split option.split)

text \<open>
  Two sessions with the same trace so far, whose next fragments agree on their first 41
  bytes, end alike and make the same calls.
\<close>

lemma establishProxy_cong:
  assumes tr: "trace w = trace w'"
    and rd: "client_in w = f # fs" "client_in w' = f' # fs'"
    and pre: "take 41 f = take 41 f'"
  shows "fst (establishProxy e w) = fst (establishProxy e w')
       \<and> trace (snd (establishProxy e w)) = trace (snd (establishProxy e w'))"
proof -
  define u where "u = emit (Debugf (take 41 f')) (emit (ClientRead 41)
               (w\<lparr>client_in := (if length f \<le> 41 then fs else drop 41 f # fs)\<rparr>))"
  define u' where "u' = emit (Debugf (take 41 f')) (emit (ClientRead 41)
               (w'\<lparr>client_in := (if length f' \<le> 41 then fs' else drop 41 f' # fs')\<rparr>))"
  have t: "trace u = trace u'"
    by (simp add: u_def u'_def emit_def tr)
  have c: "fst (establishConnect e req u) = fst (establishConnect e req u')"
    "trace (snd (establishConnect e req u)) = trace (snd (establishConnect e req u'))" for req
    using establishConnect_cong [OF t] by simp_all
  have l: "fst (establishBind e req u) = fst (establishBind e req u')"
    "trace (snd (establishBind e req u)) = trace (snd (establishBind e req u'))" for req
    using establishBind_cong [OF t] by simp_all
  have gc: "fst (replyGranted e r (snd (establishConnect e req u)))
              = fst (replyGranted e r (snd (establishConnect e req u')))"
    "trace (snd (replyGranted e r (snd (establishConnect e req u))))
              = trace (snd (replyGranted e r (snd (establishConnect e req u'))))" for r req
    using replyGranted_cong [OF c(2)] by simp_all
  have gl: "fst (replyGranted e r (snd (establishBind e req u)))
              = fst (replyGranted e r (snd (establishBind e req u')))"
    "trace (snd (replyGranted e r (snd (establishBind e req u))))
              = trace (snd (replyGranted e r (snd (establishBind e req u'))))" for r req
    using replyGranted_cong [OF l(2)] by simp_all
  show ?thesis
    unfolding establishProxy_def connRead_def rd pre list.case prod.case sum.case Let_def
    unfolding u_def [symmetric] u'_def [symmetric]
    by (simp add: c l gc gl t case_prod_unfold connWrite_def closeRemote_def emit_def
          split: sum.split option.split)
qed

lemma client_reads_establishProxy:
  "client_reads (trace (snd (establishProxy e w))) = client_reads (trace w) @ [41]"
proof (cases "client_in w")
  case Nil
  then show ?thesis
    by (simp add: establishProxy_def connRead_def emit_def client_reads_append)
next
  case (Cons f fs)
  define u where "u = emit (Debugf (take 41 f)) (emit (ClientRead 41)
               (w\<lparr>client_in := (if length f \<le> 41 then fs else drop 41 f # fs)\<rparr>))"
  have r: "client_reads (trace u) = client_reads (trace w) @ [41]"
    by (simp add: u_def emit_def client_reads_append)
  show ?thesis
    unfolding establishProxy_def connRead_def Cons list.case prod.case sum.case Let_def
    unfolding u_def [symmetric]
    by (simp add: r case_prod_unfold connWrite_def closeRemote_def emit_def
          client_reads_append client_reads_establishConnect client_reads_establishBind
          client_reads_replyGranted
          split: sum.split option.split)
qed

text \<open>
  What the operations after the read add to the trace, and that they leave the unread
  input alone.
\<close>

lemma trace_establishConnect:
  "trace (snd (establishConnect e req w)) = trace w @ [Dial (Address req)]"
  by (simp add: establishConnect_def emit_def split: sum.split)

lemma trace_establishBind:
  "\<exists>evs. trace (snd (establishBind e req w)) = trace w @ Listen # evs"
  by (simp add: establishBind_def connWrite_def emit_def Let_def
        split: sum.split option.split accepting.split)

lemma trace_replyGranted:
  "\<exists>evs. trace (snd (replyGranted e r w)) = trace w @ evs"
  by (simp add: replyGranted_def connWrite_def emit_def split: sum.split option.split)

lemma outcome_replyGranted: "fst (replyGranted e r w) \<noteq> Aborted (Decode d)"
  by (simp add: replyGranted_def connWrite_def emit_def split: sum.split option.split)

lemma client_in_establishConnect:
  "client_in (snd (establishConnect e req w)) = client_in w"
  by (simp add: establishConnect_def emit_def split: sum.split)

lemma client_in_establishBind:
  "client_in (snd (establishBind e req w)) = client_in w"
  by (simp add: establishBind_def connWrite_def emit_def Let_def
        split: sum.split option.split accepting.split)

lemma client_in_replyGranted:
  "client_in (snd (replyGranted e r w)) = client_in w"
  by (simp add: replyGranted_def connWrite_def emit_def split: sum.split option.split)

lemma ParseRequest_Cmd:
  "ParseRequest b = Inr req \<Longrightarrow> Cmd req = CmdConnect \<or> Cmd req = CmdBind"
  by (auto simp add: ParseRequest_def Let_def split: if_splits)

text \<open>
  When the first 41 bytes of the first fragment do not decode, the session ends with
  their decode error, after the read and the log entry and nothing else.
\<close>

lemma establishProxy_decode_error:
  assumes rd: "client_in w = f # fs"
    and p: "ParseRequest (take 41 f) = Inl err"
  shows "establishProxy e w
         = (Aborted (Decode err),
            w\<lparr>client_in := (if length f \<le> 41 then fs else drop 41 f # fs),
              trace := trace w @ [ClientRead 41, Debugf (take 41 f)]\<rparr>)"
  by (simp add: establishProxy_def connRead_def emit_def rd p Let_def)

text \<open>
  When they decode to a request, the session does not end with a decode error, and its
  next call is the one this request asks for: the dial of the request's address for
  CONNECT, the listen for BIND. What the read left of the input is still there at the
  end.
\<close>

lemma establishProxy_decoded:
  assumes rd: "client_in w = f # fs"
    and p: "ParseRequest (take 41 f) = Inr req"
  shows "fst (establishProxy e w) \<noteq> Aborted (Decode d)"
    and "Cmd req = CmdConnect \<Longrightarrow>
         \<exists>evs. trace (snd (establishProxy e w))
                = trace w @ ClientRead 41 # Debugf (take 41 f) # Dial (Address req) # evs"
    and "Cmd req = CmdBind \<Longrightarrow>
         \<exists>evs. trace (snd (establishProxy e w))
                = trace w @ ClientRead 41 # Debugf (take 41 f) # Listen # evs"
    and "client_in (snd (establishProxy e w))
         = (if length f \<le> 41 then fs else drop 41 f # fs)"
proof -
  define u where "u = emit (Debugf (take 41 f)) (emit (ClientRead 41)
               (w\<lparr>client_in := (if length f \<le> 41 then fs else drop 41 f # fs)\<rparr>))"
  have tu: "trace u = trace w @ [ClientRead 41, Debugf (take 41 f)]"
    and cu: "client_in u = (if length f \<le> 41 then fs else drop 41 f # fs)"
    by (simp_all add: u_def emit_def)
  let ?c = "establishConnect e req u" and ?l = "establishBind e req u"
  obtain lv where tl: "trace (snd ?l) = trace u @ Listen # lv"
    using trace_establishBind by blast
  obtain cv where tgc:
    "trace (snd (replyGranted e (fst (fst ?c)) (snd ?c))) = trace (snd ?c) @ cv"
    using trace_replyGranted by blast
  obtain bv where tgl:
    "trace (snd (replyGranted e (fst (fst ?l)) (snd ?l))) = trace (snd ?l) @ bv"
    using trace_replyGranted by blast
  have ne: "CmdBind \<noteq> CmdConnect"
    by (simp add: socks_consts)
  have E: "establishProxy e w =
           (if Cmd req = CmdConnect then
              (case ?c of
                 ((remote, err), w3) \<Rightarrow>
                   if err \<noteq> None then
                     (case connWrite e (ToBytes \<lparr>Cd = RejectOrFailure, BndPort = 0, IP = []\<rparr>) w3 of
                        (wErr, w4) \<Rightarrow>
                          if err \<noteq> None then
                            (case closeRemote remote w4 of
                               None \<Rightarrow> (Panicked, w4)
                             | Some w5 \<Rightarrow> (Aborted (ReplyFailed wErr), w5))
                          else (Aborted (ConnectFailed err), w4))
                   else replyGranted e remote w3)
            else if Cmd req = CmdBind then
              (case ?l of
                 ((remote, err), w3) \<Rightarrow>
                   if err \<noteq> None then
                     (case connWrite e (ToBytes \<lparr>Cd = RejectOrFailure, BndPort = 0, IP = []\<rparr>) w3 of
                        (wErr, w4) \<Rightarrow>
                          if wErr \<noteq> None then
                            (case closeRemote remote w4 of
                               None \<Rightarrow> (Panicked, w4)
                             | Some w5 \<Rightarrow> (Aborted (ReplyFailed wErr), w5))
                          else (Aborted (BindFailed err), w4))
                   else replyGranted e remote w3)
            else (Aborted (UnexpectedCommand (Cmd req)), u))"
    unfolding establishProxy_def connRead_def rd p list.case prod.case sum.case Let_def
    unfolding u_def [symmetric]
    by (rule refl)
  show "fst (establishProxy e w) \<noteq> Aborted (Decode d)"
    unfolding E
    by (simp add: case_prod_unfold connWrite_def closeRemote_def emit_def outcome_replyGranted
          split: option.split)
  show "\<exists>evs. trace (snd (establishProxy e w))
                = trace w @ ClientRead 41 # Debugf (take 41 f) # Dial (Address req) # evs"
    if "Cmd req = CmdConnect"
    unfolding E
    by (simp add: that case_prod_unfold connWrite_def closeRemote_def emit_def
          trace_establishConnect tgc tu split: option.split)
  show "\<exists>evs. trace (snd (establishProxy e w))
                = trace w @ ClientRead 41 # Debugf (take 41 f) # Listen # evs"
    if "Cmd req = CmdBind"
    unfolding E
    by (simp add: that ne case_prod_unfold connWrite_def closeRemote_def emit_def
          tgl tl tu split: option.split)
  show "client_in (snd (establishProxy e w))
         = (if length f \<le> 41 then fs else drop 41 f # fs)"
    unfolding E
    by (simp add: case_prod_unfold connWrite_def closeRemote_def emit_def cu
          client_in_establishConnect client_in_establishBind client_in_replyGranted
          split: option.split)
qed

text \<open>
  The 44-byte request is a valid request, and its first 41 bytes are not: the name has
  lost its end and its terminator.
\<close>

lemma ParseRequest_long_request:
  "ParseRequest long_request
   = Inr \<lparr>Version = 4, Cmd = 1, Port = 80,
          Address = ''aaaaaaaaaaaaaaaaaaaaaaaaaaaaaa.bcd:80'', IsV4A = True, UserId = []\<rparr>"
  by (simp add: long_request_def ParseRequest_def socks_consts text_eval Uint16_def)

lemma ParseRequest_long_request_prefix:
  "ParseRequest (take 41 long_request) = Inl MalformedExtendedRequest"
  by (simp add: long_request_def ParseRequest_def socks_consts Uint16_def)

text \<open>
  C9. \<^verbatim>\<open>establishProxy\<close> reads from the client once, into a buffer of 41 bytes, and never
  again: the rest of the first fragment and the later fragments are still unread when it
  ends. What it decodes is the first 41 bytes of the first fragment. These bytes are
  what it logs after the read; when they do not decode, their decode error ends the
  session, with no other call; when they decode to a request, no decode error ends the
  session and the next call is the one this request asks for, the dial of its address
  for CONNECT and the listen for BIND. Altogether the session ends as it would, and
  makes the calls it would make, had the client sent these 41 bytes and nothing else.
\<close>

theorem establishProxy_one_read:
  assumes "trace w = []"
  shows "client_reads (trace (snd (establishProxy e w))) = [41]
       \<and> (\<forall>f fs. client_in w = f # fs \<longrightarrow>
            take 2 (trace (snd (establishProxy e w))) = [ClientRead 41, Debugf (take 41 f)]
          \<and> client_in (snd (establishProxy e w))
              = (if length f \<le> 41 then fs else drop 41 f # fs)
          \<and> (\<forall>err. ParseRequest (take 41 f) = Inl err \<longrightarrow>
                fst (establishProxy e w) = Aborted (Decode err)
              \<and> trace (snd (establishProxy e w)) = [ClientRead 41, Debugf (take 41 f)])
          \<and> (\<forall>req. ParseRequest (take 41 f) = Inr req \<longrightarrow>
                (\<forall>d. fst (establishProxy e w) \<noteq> Aborted (Decode d))
              \<and> (Cmd req = CmdConnect \<longrightarrow>
                   take 3 (trace (snd (establishProxy e w)))
                   = [ClientRead 41, Debugf (take 41 f), Dial (Address req)])
              \<and> (Cmd req = CmdBind \<longrightarrow>
                   take 3 (trace (snd (establishProxy e w)))
                   = [ClientRead 41, Debugf (take 41 f), Listen]))
          \<and> fst (establishProxy e w) = fst (establishProxy e (w\<lparr>client_in := [take 41 f]\<rparr>))
          \<and> trace (snd (establishProxy e w))
              = trace (snd (establishProxy e (w\<lparr>client_in := [take 41 f]\<rparr>))))"
proof -
  have reads: "client_reads (trace (snd (establishProxy e w))) = [41]"
    using assms by (simp add: client_reads_establishProxy)
  have decode: "take 2 (trace (snd (establishProxy e w))) = [ClientRead 41, Debugf (take 41 f)]
          \<and> client_in (snd (establishProxy e w))
              = (if length f \<le> 41 then fs else drop 41 f # fs)
          \<and> (\<forall>err. ParseRequest (take 41 f) = Inl err \<longrightarrow>
                fst (establishProxy e w) = Aborted (Decode err)
              \<and> trace (snd (establishProxy e w)) = [ClientRead 41, Debugf (take 41 f)])
          \<and> (\<forall>req. ParseRequest (take 41 f) = Inr req \<longrightarrow>
                (\<forall>d. fst (establishProxy e w) \<noteq> Aborted (Decode d))
              \<and> (Cmd req = CmdConnect \<longrightarrow>
                   take 3 (trace (snd (establishProxy e w)))
                   = [ClientRead 41, Debugf (take 41 f), Dial (Address req)])
              \<and> (Cmd req = CmdBind \<longrightarrow>
                   take 3 (trace (snd (establishProxy e w)))
                   = [ClientRead 41, Debugf (take 41 f), Listen]))"
    if rd: "client_in w = f # fs" for f fs
  proof (cases "ParseRequest (take 41 f)")
    case (Inl err)
    show ?thesis
      by (simp add: establishProxy_decode_error [OF rd Inl] assms Inl)
  next
    case (Inr req)
    note d = establishProxy_decoded [OF rd Inr, of e]
    have c3: "take 3 (trace (snd (establishProxy e w)))
                = [ClientRead 41, Debugf (take 41 f), Dial (Address req)]"
      if "Cmd req = CmdConnect"
      using d(2) [OF that] assms by auto
    have b3: "take 3 (trace (snd (establishProxy e w)))
                = [ClientRead 41, Debugf (take 41 f), Listen]"
      if "Cmd req = CmdBind"
      using d(3) [OF that] assms by auto
    have t2: "take 2 (trace (snd (establishProxy e w))) = [ClientRead 41, Debugf (take 41 f)]"
      using ParseRequest_Cmd [OF Inr] d(2) d(3) assms by auto
    show ?thesis
      using t2 c3 b3 d(1) d(4) by (simp add: Inr)
  qed
  have same: "fst (establishProxy e w) = fst (establishProxy e (w\<lparr>client_in := [take 41 f]\<rparr>))
          \<and> trace (snd (establishProxy e w))
              = trace (snd (establishProxy e (w\<lparr>client_in := [take 41 f]\<rparr>)))"
    if rd: "client_in w = f # fs" for f fs
    by (rule establishProxy_cong
          [where w' = "w\<lparr>client_in := [take 41 f]\<rparr>" and f' = "take 41 f" and fs' = "[]",
           OF _ rd])
       simp_all
  from reads decode same show ?thesis
    by blast
qed

text \<open>
  The witness has two sessions. In the first the client sends the 44-byte request in one
  piece: the handler decodes its first 41 bytes, refuses it as malformed and leaves the
  last three bytes unread. In the second a valid request arrives in two fragments: only
  the first, of four bytes, is decoded, and the request is refused as too short.
\<close>

theorem establishProxy_one_read_witness:
  "client_reads (trace (snd (establishProxy refusing (client long_request)))) = [41]
   \<and> fst (establishProxy refusing (client long_request))
       = Aborted (Decode MalformedExtendedRequest)
   \<and> trace (snd (establishProxy refusing (client long_request)))
       = [ClientRead 41, Debugf (take 41 long_request)]
   \<and> client_in (snd (establishProxy refusing (client long_request))) = [[0x63, 0x64, 0]]
   \<and> fst (establishProxy refusing \<lparr>client_in = [[4, 1, 0, 80], [7, 7, 7, 7, 0]], trace = []\<rparr>)
       = Aborted (Decode MalformedRequest)"
proof -
  have c: "client_in (client long_request) = [long_request]"
    and t: "trace (client long_request) = []"
    by (simp_all add: client_def)
  have l: "\<not> length long_request \<le> 41"
    and d: "drop 41 long_request = [0x63, 0x64, 0]"
    by (simp_all add: long_request_def)
  have s: "ParseRequest [4, 1, 0, 80] = Inl MalformedRequest"
    by (simp add: ParseRequest_def)
  show ?thesis
    using establishProxy_one_read [OF t, of refusing]
      establishProxy_one_read
        [of "\<lparr>client_in = [[4, 1, 0, 80], [7, 7, 7, 7, 0]], trace = []\<rparr>" refusing]
    by (simp add: c l d s ParseRequest_long_request_prefix)
qed

end
